theory Spec2Isabelle
  imports Main "HOL-Library.Word"
begin

section \<open>tfrutil/client.py: validation and dispatch of a TFRecord job\<close>

text \<open>
  A shallow embedding of \<^verbatim>\<open>src/tfrutil/client.py\<close>. Every \<^verbatim>\<open>raise\<close> of the module is a
  value \<open>Inl e\<close> of a sum type. The side effects of \<^verbatim>\<open>create_tfrecords\<close> (logging set-up,
  the calls into Beam, logging shutdown) are recorded, in the order they happen, in a list
  of events returned beside the result.
\<close>

subsection \<open>Python exceptions\<close>

datatype error =
    AttributeError string
  | KeyError "string list"
  | ValueError string
  | NotImplementedError
  | NotFoundError string
  | ExternalError string

subsection \<open>Strings\<close>

definition startswith :: "string \<Rightarrow> string \<Rightarrow> bool" where
  "startswith s p = (take (length p) s = p)"

definition endswith :: "string \<Rightarrow> string \<Rightarrow> bool" where
  "endswith s p = (length p \<le> length s \<and> drop (length s - length p) s = p)"

text \<open>\<^verbatim>\<open>str(v)\<close> for an optional string, as \<^verbatim>\<open>'{}'.format(v)\<close> prints it.\<close>

definition py_str :: "string option \<Rightarrow> string" where
  "py_str v = (case v of None \<Rightarrow> ''None'' | Some s \<Rightarrow> s)"

text \<open>\<^verbatim>\<open>not v\<close> for an optional string: \<^verbatim>\<open>None\<close> and the empty string are falsy.\<close>

definition falsy :: "string option \<Rightarrow> bool" where
  "falsy v = (case v of None \<Rightarrow> True | Some s \<Rightarrow> s = [])"

text \<open>The \<^verbatim>\<open>repr\<close> of a list of plain strings, as \<^verbatim>\<open>'{}'.format(a_list)\<close> prints it.\<close>

fun join_comma :: "string list \<Rightarrow> string" where
  "join_comma [] = []"
| "join_comma [x] = x"
| "join_comma (x # y # ys) = x @ '', '' @ join_comma (y # ys)"

definition repr_list :: "string list \<Rightarrow> string" where
  "repr_list xs = ''['' @ join_comma (map (\<lambda>s. [CHR 0x27] @ s @ [CHR 0x27]) xs) @ '']''"

text \<open>\<^verbatim>\<open>os.path.join(a, b)\<close> on POSIX, for two components.\<close>

definition os_path_join :: "string \<Rightarrow> string \<Rightarrow> string" where
  "os_path_join a b =
     (if startswith b ''/'' then b
      else if a = [] \<or> endswith a ''/'' then a @ b
      else a @ ''/'' @ b)"

subsection \<open>The constants module\<close>

text \<open>
  Modelled from the spec: \<^verbatim>\<open>tfrutil/constants.py\<close> is not among the sources. The spec fixes
  the canonical column list as image_uri, label, split in that order; the three keys are
  its entries. \<^verbatim>\<open>LOGFILE\<close> and \<^verbatim>\<open>LOGLEVEL\<close> are not fixed by the spec and are taken
  from the environment below.
\<close>

definition IMAGE_URI_KEY :: string where
  "IMAGE_URI_KEY = ''image_uri''"

definition LABEL_KEY :: string where
  "LABEL_KEY = ''label''"

definition SPLIT_KEY :: string where
  "SPLIT_KEY = ''split''"

definition IMAGE_CSV_COLUMNS :: "string list" where
  "IMAGE_CSV_COLUMNS = [IMAGE_URI_KEY, LABEL_KEY, SPLIT_KEY]"

subsection \<open>pandas: the operations client.py uses\<close>

text \<open>
  A DataFrame is its row count and its columns, in order, each a name with a typed Series.
  The model covers the column types of the data model: strings (dtype object), 64-bit
  integers (dtype int64) and booleans (dtype bool), without missing values. Column names
  may repeat, as pandas allows.
\<close>

datatype series =
    ObjectSeries "string list"
  | Int64Series "64 word list"
  | BoolSeries "bool list"

datatype dtype = object | int64 | bool

fun dtype_of :: "series \<Rightarrow> dtype" where
  "dtype_of (ObjectSeries _) = object"
| "dtype_of (Int64Series _) = int64"
| "dtype_of (BoolSeries _) = bool"

record dataframe =
  nrows :: nat
  data :: "(string \<times> series) list"

text \<open>\<^verbatim>\<open>list(df.columns)\<close>\<close>

definition columns :: "dataframe \<Rightarrow> string list" where
  "columns df = map fst (data df)"

text \<open>
  \<^verbatim>\<open>df[key]\<close> for one label: KeyError when no column has the name, the Series when exactly
  one has, and a DataFrame of all the columns of that name when several have.
\<close>

datatype item = Column series | Frame dataframe

definition getitem :: "dataframe \<Rightarrow> string \<Rightarrow> error + item" where
  "getitem df key =
     (case filter (\<lambda>c. fst c = key) (data df) of
        [] \<Rightarrow> Inl (KeyError [key])
      | [c] \<Rightarrow> Inr (Column (snd c))
      | c # d # cs \<Rightarrow> Inr (Frame (df\<lparr>data := c # d # cs\<rparr>)))"

text \<open>
  \<^verbatim>\<open>df[names]\<close> for a list of labels: KeyError naming the labels that are no column;
  otherwise the columns of each requested name, in the order requested, over the same rows.
\<close>

definition getitem_list :: "dataframe \<Rightarrow> string list \<Rightarrow> error + dataframe" where
  "getitem_list df names =
     (case filter (\<lambda>n. n \<notin> set (columns df)) names of
        [] \<Rightarrow> Inr (df\<lparr>data := concat (map (\<lambda>n. filter (\<lambda>c. fst c = n) (data df)) names)\<rparr>)
      | m # ms \<Rightarrow> Inl (KeyError (m # ms)))"

text \<open>
  \<^verbatim>\<open>x.str.startswith(p)\<close>: the \<^verbatim>\<open>.str\<close> accessor exists on a Series of strings only;
  pandas raises AttributeError on any other Series, and a DataFrame has no such attribute.
\<close>

definition str_startswith :: "item \<Rightarrow> string \<Rightarrow> error + bool list" where
  "str_startswith x p =
     (case x of
        Column (ObjectSeries vs) \<Rightarrow> Inr (map (\<lambda>v. startswith v p) vs)
      | Column _ \<Rightarrow> Inl (AttributeError ''Can only use .str accessor with string values!'')
      | Frame _ \<Rightarrow> Inl (AttributeError ''DataFrame object has no attribute str''))"

text \<open>\<^verbatim>\<open>pd.api.types.is_integer_dtype(x)\<close>\<close>

definition is_integer_dtype :: "item \<Rightarrow> bool" where
  "is_integer_dtype x = (case x of Column s \<Rightarrow> dtype_of s = int64 | Frame _ \<Rightarrow> False)"

subsection \<open>The external collaborators\<close>

text \<open>
  The \<^verbatim>\<open>header\<close> argument: \<^verbatim>\<open>None\<close> is \<open>None\<close>, the default \<^verbatim>\<open>'infer'\<close> is
  \<open>Some (HeaderStr ''infer'')\<close>.
\<close>

datatype header = HeaderStr string | HeaderInt int | HeaderSeq "int list"

datatype job_state = DONE | FAILED | CANCELLED | UNKNOWN

text \<open>
  What \<^verbatim>\<open>beam_pipeline.build_pipeline\<close> returns: a pipeline whose \<^verbatim>\<open>run()\<close> raises or
  gives a result, whose \<^verbatim>\<open>wait_until_finish()\<close> raises or gives the terminal state.
\<close>

datatype pipeline_result = PipelineResult (wait_until_finish: "error + job_state")

datatype pipeline = Pipeline (run: "error + pipeline_result")

text \<open>The keyword arguments of the call to \<^verbatim>\<open>build_pipeline\<close>.\<close>

record build_args =
  df :: dataframe
  job_label :: string
  runner :: string
  project :: "string option"
  region :: "string option"
  output_dir :: string
  compression :: "string option"
  num_shards :: int
  dataflow_options :: "(string \<times> string) list option"
  integer_label :: bool

text \<open>
  Everything outside the module: the files \<^verbatim>\<open>tf.io.gfile.GFile\<close> can read (path to
  content), the directories of the file system, \<^verbatim>\<open>pd.read_csv\<close> (content, names, header),
  \<^verbatim>\<open>beam_pipeline.build_pipeline\<close>, and the two logging constants.
\<close>

record env =
  gfile :: "string \<Rightarrow> string option"
  isdir :: "string \<Rightarrow> bool"
  pd_read_csv :: "string \<Rightarrow> string list option \<Rightarrow> header option \<Rightarrow> error + dataframe"
  build_pipeline :: "build_args \<Rightarrow> error + pipeline"
  LOGFILE :: string
  LOGLEVEL :: int

subsection \<open>Observable effects\<close>

datatype event =
    BasicConfig string int
  | SetLevel string int
  | BuildPipeline build_args
  | Run
  | WaitUntilFinish
  | LoggingShutdown

text \<open>\<^verbatim>\<open>logging.ERROR\<close>\<close>

definition logging_ERROR :: int where
  "logging_ERROR = 40"

subsection \<open>client.py\<close>

text \<open>\<^verbatim>\<open>_validate_data(df)\<close>\<close>

definition validate_data :: "dataframe \<Rightarrow> error + unit" where
  "validate_data d =
     (if IMAGE_URI_KEY \<notin> set (columns d) then
        Inl (AttributeError ''Dataframe must contain image_uri column {}.'')
      else if LABEL_KEY \<notin> set (columns d) then
        Inl (AttributeError ''Dataframe must contain label column.'')
      else if SPLIT_KEY \<notin> set (columns d) then
        Inl (AttributeError ''Dataframe must contain split column.'')
      else if columns d \<noteq> IMAGE_CSV_COLUMNS then
        Inl (AttributeError (''Dataframe column order must be '' @ repr_list IMAGE_CSV_COLUMNS))
      else Inr ())"

text \<open>\<^verbatim>\<open>_validate_runner(df, runner, project, region)\<close>\<close>

definition validate_runner ::
  "dataframe \<Rightarrow> string \<Rightarrow> string option \<Rightarrow> string option \<Rightarrow> error + unit" where
  "validate_runner d rn pr rg =
     (if rn \<notin> set [''DataFlowRunner'', ''DirectRunner''] then
        Inl (AttributeError (''Runner '' @ rn @ '' is not supported.''))
      else
        (case getitem d IMAGE_URI_KEY of
           Inl e \<Rightarrow> Inl e
         | Inr col \<Rightarrow>
            (case str_startswith col ''gs://'' of
               Inl e \<Rightarrow> Inl e
             | Inr bs \<Rightarrow>
                (let gcs_path = list_all (\<lambda>b. b) bs in
                 if rn = ''DataFlowRunner'' \<and> \<not> gcs_path then
                   Inl (AttributeError ''DataFlowRunner requires GCS image locations.'')
                 else if rn = ''DataFlowRunner'' \<and> list_ex falsy [pr, rg] then
                   Inl (AttributeError
                     (''DataFlowRunner requires project region and region '' @
                      ''project is '' @ py_str pr @ '' and region is '' @ py_str rg))
                 else Inr ()))))"

text \<open>\<^verbatim>\<open>_is_directory(input_data)\<close>: the argument is discarded and the answer is False.\<close>

definition is_directory :: "string \<Rightarrow> bool" where
  "is_directory input_data = False"

text \<open>\<^verbatim>\<open>read_csv(csv_file, header, names)\<close>\<close>

definition read_csv ::
  "env \<Rightarrow> string \<Rightarrow> header option \<Rightarrow> string list option \<Rightarrow> error + dataframe" where
  "read_csv E csv_file hd_arg names =
     (let names' = (if hd_arg = None \<and> (names = None \<or> names = Some [])
                    then Some IMAGE_CSV_COLUMNS else names)
      in case gfile E csv_file of
           None \<Rightarrow> Inl (NotFoundError csv_file)
         | Some f \<Rightarrow> pd_read_csv E f names' hd_arg)"

text \<open>
  The argument of \<^verbatim>\<open>to_dataframe\<close>: a DataFrame, a string, or a value of any other type,
  of which only \<^verbatim>\<open>str(type(input_data))\<close> is ever used.
\<close>

datatype input_data = DataFrameInput dataframe | StrInput string | OtherInput string

text \<open>\<^verbatim>\<open>to_dataframe(input_data, header, names)\<close>\<close>

definition to_dataframe ::
  "env \<Rightarrow> input_data \<Rightarrow> header option \<Rightarrow> string list option \<Rightarrow> error + dataframe" where
  "to_dataframe E inp hd_arg names =
     (case inp of
        DataFrameInput d \<Rightarrow>
          (case names of
             None \<Rightarrow> Inr d
           | Some [] \<Rightarrow> Inr d
           | Some (n # ns) \<Rightarrow> getitem_list d (n # ns))
      | StrInput s \<Rightarrow>
          (if endswith s ''.csv'' then read_csv E s hd_arg names
           else if is_directory s then Inl NotImplementedError
           else Inl (ValueError (''Unsupported `input_data`: '' @ ''<class 'str'>'')))
      | OtherInput ty \<Rightarrow> Inl (ValueError (''Unsupported `input_data`: '' @ ty)))"

text \<open>
  \<^verbatim>\<open>create_tfrecords(...)\<close>: the result (the function returns \<^verbatim>\<open>None\<close>, or raises)
  and the effects in order. The final \<^verbatim>\<open>os.path.exists(logfile)\<close> test guards a
  \<^verbatim>\<open>pass\<close> and has no effect.
\<close>

definition create_tfrecords ::
  "env \<Rightarrow> input_data \<Rightarrow> string \<Rightarrow> header option \<Rightarrow> string list option \<Rightarrow> string \<Rightarrow>
   string option \<Rightarrow> string option \<Rightarrow> (string \<times> string) list option \<Rightarrow> string \<Rightarrow>
   string option \<Rightarrow> int \<Rightarrow> (error + unit) \<times> event list" where
  "create_tfrecords E inp out hd_arg names rn pr rg opts lbl cmpr shards =
     (case to_dataframe E inp hd_arg names of
        Inl e \<Rightarrow> (Inl e, [])
      | Inr d \<Rightarrow>
     (case validate_data d of
        Inl e \<Rightarrow> (Inl e, [])
      | Inr _ \<Rightarrow>
     (case validate_runner d rn pr rg of
        Inl e \<Rightarrow> (Inl e, [])
      | Inr _ \<Rightarrow>
     (let logfile = os_path_join ''/tmp'' (LOGFILE E);
          t0 = [BasicConfig logfile (LOGLEVEL E), SetLevel ''tensorflow'' logging_ERROR]
      in
     (case getitem d LABEL_KEY of
        Inl e \<Rightarrow> (Inl e, t0)
      | Inr label_col \<Rightarrow>
     (let a = \<lparr>df = d, job_label = lbl, runner = rn, project = pr, region = rg,
               output_dir = out, compression = cmpr, num_shards = shards,
               dataflow_options = opts, integer_label = is_integer_dtype label_col\<rparr>;
          t1 = t0 @ [BuildPipeline a]
      in
     (case build_pipeline E a of
        Inl e \<Rightarrow> (Inl e, t1)
      | Inr p \<Rightarrow>
     (case run p of
        Inl e \<Rightarrow> (Inl e, t1 @ [Run])
      | Inr result \<Rightarrow>
     (case wait_until_finish result of
        Inl e \<Rightarrow> (Inl e, t1 @ [Run, WaitUntilFinish])
      | Inr _ \<Rightarrow> (Inr (), t1 @ [Run, WaitUntilFinish, LoggingShutdown]))))))))))"

subsection \<open>Example inputs\<close>

text \<open>The one-row table of the end-to-end scenarios, whose image is in remote storage.\<close>

definition example_table :: dataframe where
  "example_table =
     \<lparr>nrows = 1,
      data = [(IMAGE_URI_KEY, ObjectSeries [''gs://b/1.jpg'']),
              (LABEL_KEY, ObjectSeries [''cat'']),
              (SPLIT_KEY, ObjectSeries [''train''])]\<rparr>"

text \<open>The same table with the image column renamed to \<^verbatim>\<open>uri\<close>.\<close>

definition renamed_table :: dataframe where
  "renamed_table =
     \<lparr>nrows = 1,
      data = [(''uri'', ObjectSeries [''gs://b/1.jpg'']),
              (LABEL_KEY, ObjectSeries [''cat'']),
              (SPLIT_KEY, ObjectSeries [''train''])]\<rparr>"

text \<open>Two rows with integer labels; the second image is a local file.\<close>

definition mixed_table :: dataframe where
  "mixed_table =
     \<lparr>nrows = 2,
      data = [(IMAGE_URI_KEY, ObjectSeries [''gs://b/1.jpg'', ''/home/u/2.jpg'']),
              (LABEL_KEY, Int64Series [0, 1]),
              (SPLIT_KEY, ObjectSeries [''train'', ''test''])]\<rparr>"

text \<open>The table \<^verbatim>\<open>pd.DataFrame(columns=['image_uri', 'label', 'split'])\<close>: no rows.\<close>

definition empty_table :: dataframe where
  "empty_table =
     \<lparr>nrows = 0,
      data = [(IMAGE_URI_KEY, ObjectSeries []),
              (LABEL_KEY, ObjectSeries []),
              (SPLIT_KEY, ObjectSeries [])]\<rparr>"

text \<open>
  A table without rows whose columns were given an integer dtype, as
  \<^verbatim>\<open>pd.DataFrame({'image_uri': pd.Series([], dtype='int64'), ...})\<close> builds it.
\<close>

definition empty_int64_table :: dataframe where
  "empty_int64_table =
     \<lparr>nrows = 0,
      data = [(IMAGE_URI_KEY, Int64Series []),
              (LABEL_KEY, Int64Series []),
              (SPLIT_KEY, Int64Series [])]\<rparr>"

text \<open>
  A reader standing for \<^verbatim>\<open>pd.read_csv\<close> in the examples: it ignores the content and
  gives a table without rows that has the requested column names.
\<close>

definition stub_read_csv ::
  "string \<Rightarrow> string list option \<Rightarrow> header option \<Rightarrow> error + dataframe" where
  "stub_read_csv f names hd_arg =
     (case names of
        None \<Rightarrow> Inl (ExternalError ''EmptyDataError'')
      | Some ns \<Rightarrow> Inr \<lparr>nrows = 0, data = map (\<lambda>n. (n, ObjectSeries [])) ns\<rparr>)"

text \<open>
  An environment with one CSV file and one directory, in which every job is built, runs
  and finishes in state DONE.
\<close>

definition example_env :: env where
  "example_env =
     \<lparr>gfile = (\<lambda>p. if p = ''data.csv'' then Some [] else None),
      isdir = (\<lambda>p. p = ''/data/images''),
      pd_read_csv = stub_read_csv,
      build_pipeline = (\<lambda>a. Inr (Pipeline (Inr (PipelineResult (Inr DONE))))),
      LOGFILE = ''tfrutil.log'',
      LOGLEVEL = 20\<rparr>"

text \<open>The same environment, except that \<^verbatim>\<open>p.run()\<close> raises for every pipeline built.\<close>

definition failing_env :: env where
  "failing_env =
     example_env\<lparr>build_pipeline := (\<lambda>a. Inr (Pipeline (Inl (ExternalError ''job failed''))))\<rparr>"

section \<open>Properties\<close>

subsection \<open>Auxiliary facts\<close>

lemma validate_data_ok_iff: "validate_data d = Inr () \<longleftrightarrow> columns d = IMAGE_CSV_COLUMNS"
  by (auto simp: validate_data_def IMAGE_CSV_COLUMNS_def)

lemma validate_data_error:
  "columns d \<noteq> IMAGE_CSV_COLUMNS \<Longrightarrow> \<exists>m. validate_data d = Inl (AttributeError m)"
  by (simp add: validate_data_def)

lemma canonical_data:
  "columns d = IMAGE_CSV_COLUMNS \<Longrightarrow>
     \<exists>u l s. data d = [(IMAGE_URI_KEY, u), (LABEL_KEY, l), (SPLIT_KEY, s)]"
  unfolding columns_def IMAGE_CSV_COLUMNS_def
  by (cases "data d") (auto simp: map_eq_Cons_conv)

lemma keys_distinct:
  "IMAGE_URI_KEY \<noteq> LABEL_KEY" "IMAGE_URI_KEY \<noteq> SPLIT_KEY" "LABEL_KEY \<noteq> SPLIT_KEY"
  by (simp_all add: IMAGE_URI_KEY_def LABEL_KEY_def SPLIT_KEY_def)

lemma getitem_image_uri:
  "data d = [(IMAGE_URI_KEY, u), (LABEL_KEY, l), (SPLIT_KEY, s)] \<Longrightarrow>
     getitem d IMAGE_URI_KEY = Inr (Column u)"
  using keys_distinct by (simp add: getitem_def)

lemma getitem_label:
  "data d = [(IMAGE_URI_KEY, u), (LABEL_KEY, l), (SPLIT_KEY, s)] \<Longrightarrow>
     getitem d LABEL_KEY = Inr (Column l)"
  using keys_distinct by (simp add: getitem_def)

lemma create_tfrecords_normalize_fails:
  "to_dataframe E inp h ns = Inl e \<Longrightarrow>
     create_tfrecords E inp out h ns rn pr rg opts lbl cmpr shards = (Inl e, [])"
  by (simp add: create_tfrecords_def)

lemma create_tfrecords_schema_fails:
  "to_dataframe E inp h ns = Inr d \<Longrightarrow> validate_data d = Inl e \<Longrightarrow>
     create_tfrecords E inp out h ns rn pr rg opts lbl cmpr shards = (Inl e, [])"
  by (simp add: create_tfrecords_def)

lemma create_tfrecords_runner_fails:
  "to_dataframe E inp h ns = Inr d \<Longrightarrow> validate_data d = Inr () \<Longrightarrow>
   validate_runner d rn pr rg = Inl e \<Longrightarrow>
     create_tfrecords E inp out h ns rn pr rg opts lbl cmpr shards = (Inl e, [])"
  by (simp add: create_tfrecords_def)

lemma validate_runner_dataflow_strings:
  assumes "getitem x IMAGE_URI_KEY = Inr (Column (ObjectSeries us))"
      and "p \<noteq> []" and "r \<noteq> []"
  shows "validate_runner x ''DataFlowRunner'' (Some p) (Some r) =
           (if \<exists>u\<in>set us. \<not> startswith u ''gs://''
            then Inl (AttributeError ''DataFlowRunner requires GCS image locations.'')
            else Inr ())"
  using assms
  by (auto simp: validate_runner_def str_startswith_def falsy_def list_all_iff)


lemma create_tfrecords_validated:
  assumes "to_dataframe E inp h ns = Inr d"
      and "validate_data d = Inr ()"
      and "validate_runner d rn pr rg = Inr ()"
  shows "\<exists>l. getitem d LABEL_KEY = Inr (Column l) \<and>
           create_tfrecords E inp out h ns rn pr rg opts lbl cmpr shards =
             (let a = \<lparr>df = d, job_label = lbl, runner = rn, project = pr, region = rg,
                       output_dir = out, compression = cmpr, num_shards = shards,
                       dataflow_options = opts, integer_label = (dtype_of l = int64)\<rparr>;
                  t1 = [BasicConfig (os_path_join ''/tmp'' (LOGFILE E)) (LOGLEVEL E),
                        SetLevel ''tensorflow'' logging_ERROR, BuildPipeline a]
              in case build_pipeline E a of
                   Inl e \<Rightarrow> (Inl e, t1)
                 | Inr p \<Rightarrow>
                    (case run p of
                       Inl e \<Rightarrow> (Inl e, t1 @ [Run])
                     | Inr res \<Rightarrow>
                        (case wait_until_finish res of
                           Inl e \<Rightarrow> (Inl e, t1 @ [Run, WaitUntilFinish])
                         | Inr st \<Rightarrow> (Inr (), t1 @ [Run, WaitUntilFinish, LoggingShutdown]))))"
proof -
  from assms(2) obtain u l s where
    dd: "data d = [(IMAGE_URI_KEY, u), (LABEL_KEY, l), (SPLIT_KEY, s)]"
    using canonical_data validate_data_ok_iff by blast
  have gl: "getitem d LABEL_KEY = Inr (Column l)"
    by (rule getitem_label [OF dd])
  show ?thesis
    using assms gl
    by (simp add: create_tfrecords_def is_integer_dtype_def Let_def split: sum.splits)
qed

lemma create_tfrecords_validated_trace:
  assumes "to_dataframe E inp h ns = Inr d"
      and "validate_data d = Inr ()"
      and "validate_runner d rn pr rg = Inr ()"
  shows "\<exists>l rest. getitem d LABEL_KEY = Inr (Column l) \<and>
           snd (create_tfrecords E inp out h ns rn pr rg opts lbl cmpr shards) =
             [BasicConfig (os_path_join ''/tmp'' (LOGFILE E)) (LOGLEVEL E),
              SetLevel ''tensorflow'' logging_ERROR,
              BuildPipeline \<lparr>df = d, job_label = lbl, runner = rn, project = pr, region = rg,
                output_dir = out, compression = cmpr, num_shards = shards,
                dataflow_options = opts, integer_label = (dtype_of l = int64)\<rparr>] @ rest \<and>
           (\<forall>a. BuildPipeline a \<notin> set rest)"
proof -
  from create_tfrecords_validated [OF assms, of out opts lbl cmpr shards]
  obtain l where l: "getitem d LABEL_KEY = Inr (Column l)"
    and c: "create_tfrecords E inp out h ns rn pr rg opts lbl cmpr shards =
             (let a = \<lparr>df = d, job_label = lbl, runner = rn, project = pr, region = rg,
                       output_dir = out, compression = cmpr, num_shards = shards,
                       dataflow_options = opts, integer_label = (dtype_of l = int64)\<rparr>;
                  t1 = [BasicConfig (os_path_join ''/tmp'' (LOGFILE E)) (LOGLEVEL E),
                        SetLevel ''tensorflow'' logging_ERROR, BuildPipeline a]
              in case build_pipeline E a of
                   Inl e \<Rightarrow> (Inl e, t1)
                 | Inr p \<Rightarrow>
                    (case run p of
                       Inl e \<Rightarrow> (Inl e, t1 @ [Run])
                     | Inr res \<Rightarrow>
                        (case wait_until_finish res of
                           Inl e \<Rightarrow> (Inl e, t1 @ [Run, WaitUntilFinish])
                         | Inr st \<Rightarrow> (Inr (), t1 @ [Run, WaitUntilFinish, LoggingShutdown]))))"
    by blast
  show ?thesis
    using l unfolding c by (simp add: Let_def split: sum.splits)
qed

lemma create_tfrecords_unvalidated:
  assumes "\<not> (\<exists>d. to_dataframe E inp h ns = Inr d \<and> validate_data d = Inr () \<and>
                 validate_runner d rn pr rg = Inr ())"
  shows "\<exists>e. create_tfrecords E inp out h ns rn pr rg opts lbl cmpr shards = (Inl e, [])"
proof (cases "to_dataframe E inp h ns")
  case (Inl e)
  then show ?thesis by (simp add: create_tfrecords_normalize_fails)
next
  case (Inr d)
  show ?thesis
  proof (cases "validate_data d")
    case (Inl e)
    then show ?thesis using Inr by (simp add: create_tfrecords_schema_fails)
  next
    case vd: (Inr u)
    show ?thesis
    proof (cases "validate_runner d rn pr rg")
      case (Inl e)
      then show ?thesis using Inr vd by (simp add: create_tfrecords_runner_fails)
    next
      case (Inr u')
      then show ?thesis using assms \<open>to_dataframe E inp h ns = Inr d\<close> vd by simp
    qed
  qed
qed

lemma create_tfrecords_example_env:
  assumes "validate_data x = Inr ()"
      and "validate_runner x rn pr rg = Inr ()"
      and "getitem x LABEL_KEY = Inr (Column l)"
  shows "create_tfrecords example_env (DataFrameInput x) out h None rn pr rg opts lbl cmpr shards =
     (Inr (), [BasicConfig ''/tmp/tfrutil.log'' 20, SetLevel ''tensorflow'' 40,
      BuildPipeline \<lparr>df = x, job_label = lbl, runner = rn, project = pr, region = rg,
        output_dir = out, compression = cmpr, num_shards = shards, dataflow_options = opts,
        integer_label = (dtype_of l = int64)\<rparr>,
      Run, WaitUntilFinish, LoggingShutdown])"
proof -
  have t: "to_dataframe example_env (DataFrameInput x) h None = Inr x"
    by (simp add: to_dataframe_def)
  have e: "LOGFILE example_env = ''tfrutil.log''" "LOGLEVEL example_env = 20"
    by (simp_all add: example_env_def)
  have bp: "build_pipeline example_env a = Inr (Pipeline (Inr (PipelineResult (Inr DONE))))"
    for a by (simp add: example_env_def)
  have p: "os_path_join ''/tmp'' ''tfrutil.log'' = ''/tmp/tfrutil.log''"
    by (simp add: os_path_join_def startswith_def endswith_def)
  show ?thesis
    using assms
    by (simp add: create_tfrecords_def t e p bp logging_ERROR_def is_integer_dtype_def)
qed

lemma example_table_valid:
  "validate_data example_table = Inr ()"
  "getitem example_table IMAGE_URI_KEY = Inr (Column (ObjectSeries [''gs://b/1.jpg'']))"
  "getitem example_table LABEL_KEY = Inr (Column (ObjectSeries [''cat'']))"
  "validate_runner example_table ''DirectRunner'' None None = Inr ()"
proof -
  show "validate_data example_table = Inr ()"
    by (simp add: validate_data_ok_iff example_table_def columns_def IMAGE_CSV_COLUMNS_def)
  show g: "getitem example_table IMAGE_URI_KEY = Inr (Column (ObjectSeries [''gs://b/1.jpg'']))"
    by (rule getitem_image_uri) (simp add: example_table_def)
  show "getitem example_table LABEL_KEY = Inr (Column (ObjectSeries [''cat'']))"
    by (rule getitem_label) (simp add: example_table_def)
  show "validate_runner example_table ''DirectRunner'' None None = Inr ()"
    by (simp add: validate_runner_def g str_startswith_def)
qed

lemma filter_fst_distinct:
  assumes "distinct (map fst xs)" and "n \<in> fst ` set xs"
  shows "\<exists>v. filter (\<lambda>c. fst c = n) xs = [(n, v)] \<and> map_of xs n = Some v"
  using assms
proof (induction xs)
  case Nil
  then show ?case by simp
next
  case (Cons x xs)
  show ?case
  proof (cases "fst x = n")
    case True
    then have "n \<notin> fst ` set xs" using Cons.prems(1) by auto
    then have "filter (\<lambda>c. fst c = n) xs = []"
      by (auto simp: filter_empty_conv)
    then show ?thesis using True by (cases x) auto
  next
    case False
    then have "n \<in> fst ` set xs" using Cons.prems(2) by auto
    then show ?thesis using Cons.IH Cons.prems(1) False by (cases x) auto
  qed
qed

lemma getitem_list_distinct:
  assumes "distinct (columns d)" and "set ns \<subseteq> set (columns d)"
  shows "getitem_list d ns = Inr (d\<lparr>data := map (\<lambda>n. (n, the (map_of (data d) n))) ns\<rparr>)"
proof -
  have none: "filter (\<lambda>n. n \<notin> set (columns d)) ns = []"
    using assms(2) by (auto simp: filter_empty_conv)
  have each: "filter (\<lambda>c. fst c = n) (data d) = [(n, the (map_of (data d) n))]"
    if "n \<in> set ns" for n
  proof -
    have "n \<in> fst ` set (data d)" using that assms(2) by (auto simp: columns_def)
    then obtain v where "filter (\<lambda>c. fst c = n) (data d) = [(n, v)]"
        and "map_of (data d) n = Some v"
      using filter_fst_distinct [of "data d" n] assms(1) unfolding columns_def by blast
    then show ?thesis by simp
  qed
  have "concat (map (\<lambda>n. filter (\<lambda>c. fst c = n) (data d)) ns)
          = concat (map (\<lambda>n. [(n, the (map_of (data d) n))]) ns)"
    using each by (metis (no_types, lifting) map_eq_conv)
  also have "\<dots> = map (\<lambda>n. (n, the (map_of (data d) n))) ns"
    by (induction ns) auto
  finally show ?thesis
    by (simp add: getitem_list_def none)
qed

subsection \<open>Input normalization\<close>

text \<open>
  C5, as claimed: a directory path given to \<^verbatim>\<open>to_dataframe\<close> fails with
  NotImplementedError. \<^verbatim>\<open>_is_directory\<close> is a stub that answers False without looking
  at its argument, so the path of an existing directory falls through to the last branch
  and fails with the ValueError of an unsupported input.
\<close>

theorem to_dataframe_directory_counterexample:
  "isdir example_env ''/data/images'' \<and> \<not> endswith ''/data/images'' ''.csv'' \<and>
   to_dataframe example_env (StrInput ''/data/images'') (Some (HeaderStr ''infer'')) None
     = Inl (ValueError ''Unsupported `input_data`: <class 'str'>'') \<and>
   to_dataframe example_env (StrInput ''/data/images'') (Some (HeaderStr ''infer'')) None
     \<noteq> Inl NotImplementedError"
  by (simp add: to_dataframe_def is_directory_def endswith_def example_env_def)

text \<open>
  C5, as the code has it: every string that does not end in \<^verbatim>\<open>.csv\<close>, whether or not
  it names a directory, fails with the ValueError for an unsupported input, naming the
  type \<^verbatim>\<open>str\<close>; NotImplementedError is not raised for it.
\<close>

theorem to_dataframe_non_csv_string:
  assumes "\<not> endswith s ''.csv''"
  shows "is_directory s = False \<and>
         to_dataframe E (StrInput s) h ns
           = Inl (ValueError ''Unsupported `input_data`: <class 'str'>'') \<and>
         to_dataframe E (StrInput s) h ns \<noteq> Inl NotImplementedError"
  using assms by (simp add: to_dataframe_def is_directory_def)

theorem to_dataframe_non_csv_string_witness:
  "\<not> endswith ''/data/images'' ''.csv'' \<and> isdir example_env ''/data/images'' \<and>
   to_dataframe example_env (StrInput ''/data/images'') None None
     = Inl (ValueError ''Unsupported `input_data`: <class 'str'>'')"
  using to_dataframe_non_csv_string [of "''/data/images''" example_env None None]
  by (simp add: endswith_def example_env_def)

text \<open>
  C7, as claimed: for every in-memory table and every non-empty list of names, the result
  has exactly the requested columns. A requested name that is no column of the table makes
  the selection \<^verbatim>\<open>input_data[names]\<close> raise KeyError, so there is no result.
\<close>

theorem to_dataframe_projection_counterexample:
  "to_dataframe example_env (DataFrameInput example_table) (Some (HeaderStr ''infer''))
       (Some [''uri'']) = Inl (KeyError [''uri''])"
  by (simp add: to_dataframe_def getitem_list_def example_table_def columns_def
      IMAGE_URI_KEY_def LABEL_KEY_def SPLIT_KEY_def)

text \<open>
  C7, as the code has it: without names (None or an empty list) the table is returned
  unchanged. With a non-empty list of names that are all columns of a table whose column
  names are distinct, the result has exactly the requested columns in the requested
  order, the same number of rows, and under each name the very column the input has under
  that name, so the rows keep their order. When some requested name is no column of the
  table, \<^verbatim>\<open>to_dataframe\<close> raises KeyError listing the missing names.
\<close>

theorem to_dataframe_projection:
  "to_dataframe E (DataFrameInput d) h None = Inr d \<and>
   to_dataframe E (DataFrameInput d) h (Some []) = Inr d \<and>
   (ns \<noteq> [] \<and> distinct (columns d) \<and> set ns \<subseteq> set (columns d) \<longrightarrow>
      (\<exists>r. to_dataframe E (DataFrameInput d) h (Some ns) = Inr r \<and>
           columns r = ns \<and> nrows r = nrows d \<and>
           (\<forall>j<length ns. map_of (data d) (ns ! j) = Some (snd (data r ! j))))) \<and>
   (ns \<noteq> [] \<and> \<not> set ns \<subseteq> set (columns d) \<longrightarrow>
      to_dataframe E (DataFrameInput d) h (Some ns)
        = Inl (KeyError (filter (\<lambda>n. n \<notin> set (columns d)) ns)))"
proof (intro conjI impI)
  show "to_dataframe E (DataFrameInput d) h None = Inr d"
    by (simp add: to_dataframe_def)
  show "to_dataframe E (DataFrameInput d) h (Some []) = Inr d"
    by (simp add: to_dataframe_def)
next
  assume a: "ns \<noteq> [] \<and> distinct (columns d) \<and> set ns \<subseteq> set (columns d)"
  let ?r = "d\<lparr>data := map (\<lambda>n. (n, the (map_of (data d) n))) ns\<rparr>"
  have td: "to_dataframe E (DataFrameInput d) h (Some ns) = getitem_list d ns"
    using a by (cases ns) (simp_all add: to_dataframe_def)
  have g: "getitem_list d ns = Inr ?r"
    using a by (simp add: getitem_list_distinct)
  have c: "columns ?r = ns"
    by (simp add: columns_def comp_def)
  have m: "map_of (data d) (ns ! j) = Some (snd (data ?r ! j))" if "j < length ns" for j
  proof -
    have "ns ! j \<in> fst ` set (data d)"
      using that a by (auto simp: columns_def)
    then obtain v where "map_of (data d) (ns ! j) = Some v"
      using filter_fst_distinct [of "data d" "ns ! j"] a by (auto simp: columns_def)
    then show ?thesis using that by simp
  qed
  show "\<exists>r. to_dataframe E (DataFrameInput d) h (Some ns) = Inr r \<and>
           columns r = ns \<and> nrows r = nrows d \<and>
           (\<forall>j<length ns. map_of (data d) (ns ! j) = Some (snd (data r ! j)))"
    using td g c m by (intro exI [of _ ?r]) simp
next
  assume a: "ns \<noteq> [] \<and> \<not> set ns \<subseteq> set (columns d)"
  have td: "to_dataframe E (DataFrameInput d) h (Some ns) = getitem_list d ns"
    using a by (cases ns) (simp_all add: to_dataframe_def)
  from a have "filter (\<lambda>n. n \<notin> set (columns d)) ns \<noteq> []"
    by (auto simp: filter_empty_conv)
  then show "to_dataframe E (DataFrameInput d) h (Some ns)
        = Inl (KeyError (filter (\<lambda>n. n \<notin> set (columns d)) ns))"
    unfolding td getitem_list_def by (simp split: list.splits)
qed


theorem to_dataframe_projection_witness:
  "distinct (columns mixed_table) \<and>
   set [SPLIT_KEY, IMAGE_URI_KEY] \<subseteq> set (columns mixed_table) \<and>
   to_dataframe example_env (DataFrameInput mixed_table) None (Some [SPLIT_KEY, IMAGE_URI_KEY])
     = Inr \<lparr>nrows = 2,
            data = [(SPLIT_KEY, ObjectSeries [''train'', ''test'']),
                    (IMAGE_URI_KEY, ObjectSeries [''gs://b/1.jpg'', ''/home/u/2.jpg''])]\<rparr> \<and>
   \<not> set [LABEL_KEY, ''uri''] \<subseteq> set (columns mixed_table) \<and>
   to_dataframe example_env (DataFrameInput mixed_table) None (Some [LABEL_KEY, ''uri''])
     = Inl (KeyError [''uri''])"
proof -
  have cs: "columns mixed_table = [''image_uri'', ''label'', ''split'']"
    by (simp add: mixed_table_def columns_def IMAGE_URI_KEY_def LABEL_KEY_def SPLIT_KEY_def)
  have d: "distinct (columns mixed_table)"
    and s: "set [SPLIT_KEY, IMAGE_URI_KEY] \<subseteq> set (columns mixed_table)"
    and n: "\<not> set [LABEL_KEY, ''uri''] \<subseteq> set (columns mixed_table)"
    by (simp_all add: cs IMAGE_URI_KEY_def LABEL_KEY_def SPLIT_KEY_def)
  have f: "filter (\<lambda>n. n \<notin> set (columns mixed_table)) [LABEL_KEY, ''uri''] = [''uri'']"
    by (simp add: cs LABEL_KEY_def)
  from to_dataframe_projection [of example_env mixed_table None "[SPLIT_KEY, IMAGE_URI_KEY]"] d s
  obtain r where r: "to_dataframe example_env (DataFrameInput mixed_table) None
                       (Some [SPLIT_KEY, IMAGE_URI_KEY]) = Inr r"
    and "columns r = [SPLIT_KEY, IMAGE_URI_KEY]" and "nrows r = nrows mixed_table"
    by auto
  have e: "to_dataframe example_env (DataFrameInput mixed_table) None
             (Some [SPLIT_KEY, IMAGE_URI_KEY])
     = Inr \<lparr>nrows = 2,
            data = [(SPLIT_KEY, ObjectSeries [''train'', ''test'']),
                    (IMAGE_URI_KEY, ObjectSeries [''gs://b/1.jpg'', ''/home/u/2.jpg''])]\<rparr>"
    by (simp add: to_dataframe_def getitem_list_def cs)
       (simp add: mixed_table_def IMAGE_URI_KEY_def LABEL_KEY_def SPLIT_KEY_def)
  have k: "to_dataframe example_env (DataFrameInput mixed_table) None (Some [LABEL_KEY, ''uri''])
     = Inl (KeyError [''uri''])"
    using to_dataframe_projection [of example_env mixed_table None "[LABEL_KEY, ''uri'']"] n f
    by simp
  show ?thesis
    using d s n e k r by simp
qed

text \<open>
  C8. Reading a CSV file with \<^verbatim>\<open>header=None\<close> and no names (None or an empty list),
  \<^verbatim>\<open>read_csv\<close> hands the canonical column list to \<^verbatim>\<open>pd.read_csv\<close> as the names.
  \<^verbatim>\<open>pd.read_csv\<close> names the columns of its result by the names it is given, so every
  table read this way has exactly the columns image_uri, label, split and passes
  \<^verbatim>\<open>_validate_data\<close>. \<^verbatim>\<open>to_dataframe\<close> reads a path ending in \<^verbatim>\<open>.csv\<close> in this way.
\<close>

theorem read_csv_default_columns:
  assumes "ns = None \<or> ns = Some []"
      and "\<And>f names hd_arg r. pd_read_csv E f (Some names) hd_arg = Inr r \<Longrightarrow> columns r = names"
  shows "read_csv E csv None ns =
           (case gfile E csv of
              None \<Rightarrow> Inl (NotFoundError csv)
            | Some f \<Rightarrow> pd_read_csv E f (Some IMAGE_CSV_COLUMNS) None) \<and>
         (\<forall>r. read_csv E csv None ns = Inr r \<longrightarrow>
              columns r = IMAGE_CSV_COLUMNS \<and> validate_data r = Inr ()) \<and>
         (endswith csv ''.csv'' \<longrightarrow> to_dataframe E (StrInput csv) None ns = read_csv E csv None ns)"
proof -
  have eq: "read_csv E csv None ns =
           (case gfile E csv of
              None \<Rightarrow> Inl (NotFoundError csv)
            | Some f \<Rightarrow> pd_read_csv E f (Some IMAGE_CSV_COLUMNS) None)"
    using assms(1) by (auto simp: read_csv_def)
  have cols: "columns r = IMAGE_CSV_COLUMNS" if "read_csv E csv None ns = Inr r" for r
    using that assms(2) unfolding eq by (cases "gfile E csv") auto
  show ?thesis
    using eq cols by (simp add: validate_data_ok_iff to_dataframe_def)
qed

theorem read_csv_default_columns_witness:
  "read_csv example_env ''data.csv'' None None
     = Inr \<lparr>nrows = 0, data = [(IMAGE_URI_KEY, ObjectSeries []), (LABEL_KEY, ObjectSeries []),
                                (SPLIT_KEY, ObjectSeries [])]\<rparr> \<and>
   columns (projr (read_csv example_env ''data.csv'' None (Some []))) = IMAGE_CSV_COLUMNS"
proof -
  have c: "pd_read_csv example_env f (Some names) hd_arg = Inr r \<Longrightarrow> columns r = names"
    for f names hd_arg r
    by (auto simp: example_env_def stub_read_csv_def columns_def comp_def)
  have g: "gfile example_env ''data.csv'' = Some []"
    by (simp add: example_env_def)
  have p: "pd_read_csv example_env [] (Some IMAGE_CSV_COLUMNS) None
     = Inr \<lparr>nrows = 0, data = [(IMAGE_URI_KEY, ObjectSeries []), (LABEL_KEY, ObjectSeries []),
                                (SPLIT_KEY, ObjectSeries [])]\<rparr>"
    by (simp add: example_env_def stub_read_csv_def IMAGE_CSV_COLUMNS_def)
  have a: "read_csv example_env ''data.csv'' None None
     = Inr \<lparr>nrows = 0, data = [(IMAGE_URI_KEY, ObjectSeries []), (LABEL_KEY, ObjectSeries []),
                                (SPLIT_KEY, ObjectSeries [])]\<rparr>"
    using read_csv_default_columns [of None example_env "''data.csv''", OF _ c]
    by (simp add: g p)
  have "read_csv example_env ''data.csv'' None (Some []) = pd_read_csv example_env [] (Some IMAGE_CSV_COLUMNS) None"
    using read_csv_default_columns [of "Some []" example_env "''data.csv''", OF _ c]
    by (simp add: g)
  then have "read_csv example_env ''data.csv'' None (Some [])
     = Inr \<lparr>nrows = 0, data = [(IMAGE_URI_KEY, ObjectSeries []), (LABEL_KEY, ObjectSeries []),
                                (SPLIT_KEY, ObjectSeries [])]\<rparr>"
    by (simp only: p)
  then have b: "columns (projr (read_csv example_env ''data.csv'' None (Some []))) = IMAGE_CSV_COLUMNS"
    by (simp add: columns_def IMAGE_CSV_COLUMNS_def)
  show ?thesis using a b by simp
qed

subsection \<open>Schema validation\<close>

text \<open>
  C1. A table whose column list is not exactly image_uri, label, split in that order (a
  required column missing or renamed, or the columns reordered) is rejected by
  \<^verbatim>\<open>_validate_data\<close> with an AttributeError carrying a message, and when such a table is
  what normalization yields, \<^verbatim>\<open>create_tfrecords\<close> fails with that error and no effect at
  all: no logging set-up, no call to \<^verbatim>\<open>build_pipeline\<close>.
\<close>

theorem validate_data_rejects_noncanonical:
  assumes "columns d \<noteq> IMAGE_CSV_COLUMNS"
  shows "(\<exists>m. validate_data d = Inl (AttributeError m)) \<and>
         (to_dataframe E inp h ns = Inr d \<longrightarrow>
            (\<exists>m. create_tfrecords E inp out h ns rn pr rg opts lbl cmpr shards
                    = (Inl (AttributeError m), [])))"
proof -
  from assms obtain m where m: "validate_data d = Inl (AttributeError m)"
    using validate_data_error by blast
  then show ?thesis
    using create_tfrecords_schema_fails [of E inp h ns d] by auto
qed

theorem validate_data_rejects_noncanonical_witness:
  "columns renamed_table \<noteq> IMAGE_CSV_COLUMNS \<and>
   validate_data renamed_table
     = Inl (AttributeError ''Dataframe must contain image_uri column {}.'') \<and>
   create_tfrecords example_env (DataFrameInput renamed_table) ''out''
       (Some (HeaderStr ''infer'')) None ''DirectRunner'' None None None
       ''create-tfrecords'' (Some ''gzip'') 0
     = (Inl (AttributeError ''Dataframe must contain image_uri column {}.''), [])"
  using validate_data_rejects_noncanonical [where d = renamed_table and E = example_env
      and inp = "DataFrameInput renamed_table" and h = "Some (HeaderStr ''infer'')" and ns = None
      and out = "''out''" and rn = "''DirectRunner''" and pr = None and rg = None and opts = None
      and lbl = "''create-tfrecords''" and cmpr = "Some ''gzip''" and shards = 0]
  by (simp add: renamed_table_def columns_def IMAGE_CSV_COLUMNS_def IMAGE_URI_KEY_def
      LABEL_KEY_def SPLIT_KEY_def validate_data_def to_dataframe_def create_tfrecords_def)

subsection \<open>Runner policy validation\<close>






text \<open>
  C10, as claimed: every table with the canonical columns and no rows passes
  \<^verbatim>\<open>_validate_runner\<close> for DataFlowRunner with non-empty project and region. Whether it
  does depends on the dtype of the empty image_uri column: on a column that is not of
  strings the \<^verbatim>\<open>.str\<close> accessor raises AttributeError before any value is looked at,
  so such a table passes \<^verbatim>\<open>_validate_data\<close>, fails \<^verbatim>\<open>_validate_runner\<close>, and
  \<^verbatim>\<open>create_tfrecords\<close> ends with that error without calling \<^verbatim>\<open>build_pipeline\<close>.
\<close>

theorem validate_runner_empty_column_counterexample:
  "nrows empty_int64_table = 0 \<and>
   columns empty_int64_table = IMAGE_CSV_COLUMNS \<and>
   validate_data empty_int64_table = Inr () \<and>
   validate_runner empty_int64_table ''DataFlowRunner'' (Some ''proj'') (Some ''us-central1'')
     = Inl (AttributeError ''Can only use .str accessor with string values!'') \<and>
   create_tfrecords example_env (DataFrameInput empty_int64_table) ''out''
       (Some (HeaderStr ''infer'')) None ''DataFlowRunner'' (Some ''proj'')
       (Some ''us-central1'') None ''create-tfrecords'' (Some ''gzip'') 0
     = (Inl (AttributeError ''Can only use .str accessor with string values!''), [])"
proof -
  have c: "columns empty_int64_table = IMAGE_CSV_COLUMNS"
    by (simp add: empty_int64_table_def columns_def IMAGE_CSV_COLUMNS_def)
  have v: "validate_data empty_int64_table = Inr ()"
    using c by (simp add: validate_data_ok_iff)
  have g: "getitem empty_int64_table IMAGE_URI_KEY = Inr (Column (Int64Series []))"
    by (rule getitem_image_uri) (simp add: empty_int64_table_def)
  have r: "validate_runner empty_int64_table ''DataFlowRunner'' (Some ''proj'')
             (Some ''us-central1'')
     = Inl (AttributeError ''Can only use .str accessor with string values!'')"
    by (simp add: validate_runner_def g str_startswith_def)
  have t: "to_dataframe example_env (DataFrameInput empty_int64_table)
             (Some (HeaderStr ''infer'')) None = Inr empty_int64_table"
    by (simp add: to_dataframe_def)
  have "create_tfrecords example_env (DataFrameInput empty_int64_table) ''out''
       (Some (HeaderStr ''infer'')) None ''DataFlowRunner'' (Some ''proj'')
       (Some ''us-central1'') None ''create-tfrecords'' (Some ''gzip'') 0
     = (Inl (AttributeError ''Can only use .str accessor with string values!''), [])"
    by (rule create_tfrecords_runner_fails [OF t v r])
  then show ?thesis
    using c v r by (simp add: empty_int64_table_def)
qed

text \<open>
  C10, as the code has it: a table that passes \<^verbatim>\<open>_validate_data\<close> and whose image_uri
  column is an empty column of strings (dtype object, as in
  \<^verbatim>\<open>pd.DataFrame(columns=['image_uri', 'label', 'split'])\<close>) passes
  \<^verbatim>\<open>_validate_runner\<close> for DataFlowRunner with non-empty project and region: the test
  that all values start with \<^verbatim>\<open>gs://\<close> holds of an empty column.
  \<^verbatim>\<open>create_tfrecords\<close> then goes on to call \<^verbatim>\<open>build_pipeline\<close> with that table.
\<close>

theorem validate_runner_empty_column:
  assumes "validate_data d = Inr ()"
      and "getitem d IMAGE_URI_KEY = Inr (Column (ObjectSeries []))"
      and "p \<noteq> []" and "r \<noteq> []"
  shows "validate_runner d ''DataFlowRunner'' (Some p) (Some r) = Inr () \<and>
         (\<exists>a rest. snd (create_tfrecords E (DataFrameInput d) out h None ''DataFlowRunner''
                          (Some p) (Some r) opts lbl cmpr shards)
                      = [BasicConfig (os_path_join ''/tmp'' (LOGFILE E)) (LOGLEVEL E),
                         SetLevel ''tensorflow'' logging_ERROR, BuildPipeline a] @ rest \<and>
                    df a = d)"
proof -
  have vr: "validate_runner d ''DataFlowRunner'' (Some p) (Some r) = Inr ()"
    using validate_runner_dataflow_strings [OF assms(2,3,4)] by simp
  have td: "to_dataframe E (DataFrameInput d) h None = Inr d"
    by (simp add: to_dataframe_def)
  from create_tfrecords_validated_trace [OF td assms(1) vr, where out = out and opts = opts
      and lbl = lbl and cmpr = cmpr and shards = shards]
  show ?thesis
    using vr by auto
qed

theorem validate_runner_empty_column_witness:
  "validate_data empty_table = Inr () \<and>
   nrows empty_table = 0 \<and>
   validate_runner empty_table ''DataFlowRunner'' (Some ''proj'') (Some ''us-central1'') = Inr () \<and>
   snd (create_tfrecords example_env (DataFrameInput empty_table) ''out''
          (Some (HeaderStr ''infer'')) None ''DataFlowRunner'' (Some ''proj'')
          (Some ''us-central1'') None ''create-tfrecords'' (Some ''gzip'') 0) ! 2
     = BuildPipeline \<lparr>df = empty_table, job_label = ''create-tfrecords'',
        runner = ''DataFlowRunner'', project = Some ''proj'', region = Some ''us-central1'',
        output_dir = ''out'', compression = Some ''gzip'', num_shards = 0,
        dataflow_options = None, integer_label = False\<rparr>"
proof -
  have v: "validate_data empty_table = Inr ()"
    by (simp add: validate_data_ok_iff empty_table_def columns_def IMAGE_CSV_COLUMNS_def)
  have g: "getitem empty_table IMAGE_URI_KEY = Inr (Column (ObjectSeries []))"
    by (rule getitem_image_uri) (simp add: empty_table_def)
  have gl: "getitem empty_table LABEL_KEY = Inr (Column (ObjectSeries []))"
    by (rule getitem_label) (simp add: empty_table_def)
  have ne: "''proj'' \<noteq> []" "''us-central1'' \<noteq> []"
    by simp_all
  note th = validate_runner_empty_column [OF v g ne, of example_env "''out''"
      "Some (HeaderStr ''infer'')" None "''create-tfrecords''" "Some ''gzip''" 0]
  have vr: "validate_runner empty_table ''DataFlowRunner'' (Some ''proj'') (Some ''us-central1'')
              = Inr ()"
    using th by blast
  have t: "to_dataframe example_env (DataFrameInput empty_table) (Some (HeaderStr ''infer'')) None
             = Inr empty_table"
    by (simp add: to_dataframe_def)
  have bp: "build_pipeline example_env a = Inr (Pipeline (Inr (PipelineResult (Inr DONE))))"
    for a by (simp add: example_env_def)
  have "snd (create_tfrecords example_env (DataFrameInput empty_table) ''out''
          (Some (HeaderStr ''infer'')) None ''DataFlowRunner'' (Some ''proj'')
          (Some ''us-central1'') None ''create-tfrecords'' (Some ''gzip'') 0) ! 2
     = BuildPipeline \<lparr>df = empty_table, job_label = ''create-tfrecords'',
        runner = ''DataFlowRunner'', project = Some ''proj'', region = Some ''us-central1'',
        output_dir = ''out'', compression = Some ''gzip'', num_shards = 0,
        dataflow_options = None, integer_label = False\<rparr>"
    by (simp add: create_tfrecords_def t v vr gl bp is_integer_dtype_def)
  then show ?thesis
    using v vr by (simp add: empty_table_def)
qed

subsection \<open>Dispatch\<close>

text \<open>
  C4. \<^verbatim>\<open>create_tfrecords\<close> normalizes, then validates the schema, then validates the
  runner policy: the first of the three that raises decides the error, whatever the later
  ones would have done, and the invocation ends there without any effect. A call to
  \<^verbatim>\<open>build_pipeline\<close> or to \<^verbatim>\<open>run\<close> only ever happens after all three succeeded.
\<close>

theorem create_tfrecords_validation_order:
  "(to_dataframe E inp h ns = Inl e \<longrightarrow>
      create_tfrecords E inp out h ns rn pr rg opts lbl cmpr shards = (Inl e, [])) \<and>
   (to_dataframe E inp h ns = Inr d \<and> validate_data d = Inl e \<longrightarrow>
      create_tfrecords E inp out h ns rn pr rg opts lbl cmpr shards = (Inl e, [])) \<and>
   (to_dataframe E inp h ns = Inr d \<and> validate_data d = Inr () \<and>
    validate_runner d rn pr rg = Inl e \<longrightarrow>
      create_tfrecords E inp out h ns rn pr rg opts lbl cmpr shards = (Inl e, [])) \<and>
   ((\<exists>a. BuildPipeline a \<in> set (snd (create_tfrecords E inp out h ns rn pr rg opts lbl cmpr shards)))
      \<or> Run \<in> set (snd (create_tfrecords E inp out h ns rn pr rg opts lbl cmpr shards))
    \<longrightarrow> (\<exists>d'. to_dataframe E inp h ns = Inr d' \<and> validate_data d' = Inr () \<and>
              validate_runner d' rn pr rg = Inr ()))"
proof (intro conjI impI)
  assume "to_dataframe E inp h ns = Inl e"
  then show "create_tfrecords E inp out h ns rn pr rg opts lbl cmpr shards = (Inl e, [])"
    by (rule create_tfrecords_normalize_fails)
next
  assume "to_dataframe E inp h ns = Inr d \<and> validate_data d = Inl e"
  then show "create_tfrecords E inp out h ns rn pr rg opts lbl cmpr shards = (Inl e, [])"
    using create_tfrecords_schema_fails by blast
next
  assume "to_dataframe E inp h ns = Inr d \<and> validate_data d = Inr () \<and>
    validate_runner d rn pr rg = Inl e"
  then show "create_tfrecords E inp out h ns rn pr rg opts lbl cmpr shards = (Inl e, [])"
    using create_tfrecords_runner_fails by blast
next
  let ?t = "snd (create_tfrecords E inp out h ns rn pr rg opts lbl cmpr shards)"
  assume "(\<exists>a. BuildPipeline a \<in> set ?t) \<or> Run \<in> set ?t"
  then have ne: "?t \<noteq> []" by auto
  show "\<exists>d'. to_dataframe E inp h ns = Inr d' \<and> validate_data d' = Inr () \<and>
              validate_runner d' rn pr rg = Inr ()"
  proof (cases "to_dataframe E inp h ns")
    case (Inl e1)
    then show ?thesis using ne create_tfrecords_normalize_fails [OF Inl] by simp
  next
    case (Inr d1)
    show ?thesis
    proof (cases "validate_data d1")
      case (Inl e2)
      then show ?thesis using ne create_tfrecords_schema_fails [OF Inr Inl] by simp
    next
      case vd: (Inr u)
      show ?thesis
      proof (cases "validate_runner d1 rn pr rg")
        case (Inl e3)
        then show ?thesis using ne vd create_tfrecords_runner_fails [OF Inr _ Inl] by simp
      next
        case vr: (Inr u')
        then show ?thesis using Inr vd by simp
      qed
    qed
  qed
qed


theorem create_tfrecords_validation_order_witness:
  "create_tfrecords example_env (OtherInput ''<class 'int'>'') ''out'' (Some (HeaderStr ''infer'')) None
       ''SparkRunner'' None None None ''create-tfrecords'' (Some ''gzip'') 0
     = (Inl (ValueError ''Unsupported `input_data`: <class 'int'>''), []) \<and>
   create_tfrecords example_env (DataFrameInput renamed_table) ''out''
       (Some (HeaderStr ''infer'')) None ''SparkRunner'' None None None
       ''create-tfrecords'' (Some ''gzip'') 0
     = (Inl (AttributeError ''Dataframe must contain image_uri column {}.''), []) \<and>
   create_tfrecords example_env (DataFrameInput example_table) ''out''
       (Some (HeaderStr ''infer'')) None ''SparkRunner'' None None None
       ''create-tfrecords'' (Some ''gzip'') 0
     = (Inl (AttributeError ''Runner SparkRunner is not supported.''), [])"
proof -
  have t1: "to_dataframe example_env (OtherInput ''<class 'int'>'') (Some (HeaderStr ''infer'')) None
              = Inl (ValueError ''Unsupported `input_data`: <class 'int'>'')"
    by (simp add: to_dataframe_def)
  have t: "to_dataframe example_env (DataFrameInput x) (Some (HeaderStr ''infer'')) None = Inr x"
    for x by (simp add: to_dataframe_def)
  have v2: "validate_data renamed_table
              = Inl (AttributeError ''Dataframe must contain image_uri column {}.'')"
    by (simp add: validate_data_def renamed_table_def columns_def IMAGE_URI_KEY_def
        LABEL_KEY_def SPLIT_KEY_def)
  have v3: "validate_data example_table = Inr ()"
    by (simp add: validate_data_ok_iff example_table_def columns_def IMAGE_CSV_COLUMNS_def)
  have r3: "validate_runner example_table ''SparkRunner'' None None
              = Inl (AttributeError ''Runner SparkRunner is not supported.'')"
    by (simp add: validate_runner_def)
  note th = create_tfrecords_validation_order [where E = example_env
      and h = "Some (HeaderStr ''infer'')" and ns = None and out = "''out''"
      and rn = "''SparkRunner''" and pr = None and rg = None and opts = None
      and lbl = "''create-tfrecords''" and cmpr = "Some ''gzip''" and shards = 0]
  show ?thesis
    using th [where inp = "OtherInput ''<class 'int'>''"
                and e = "ValueError ''Unsupported `input_data`: <class 'int'>''"]
          th [where inp = "DataFrameInput renamed_table" and d = renamed_table
                and e = "AttributeError ''Dataframe must contain image_uri column {}.''"]
          th [where inp = "DataFrameInput example_table" and d = example_table
                and e = "AttributeError ''Runner SparkRunner is not supported.''"]
          t1 t v2 v3 r3
    by simp
qed



text \<open>
  C6, as claimed: the logging scope is closed exactly once on every exit path, also when
  the job's execution raises. The code has no handler around the job: on the one-row
  table, in an environment where \<^verbatim>\<open>p.run()\<close> raises, the error propagates after the
  logging set-up and \<^verbatim>\<open>logging.shutdown()\<close> is not reached.
\<close>

theorem create_tfrecords_logging_scope_counterexample:
  "create_tfrecords failing_env (DataFrameInput example_table) ''out''
       (Some (HeaderStr ''infer'')) None ''DirectRunner'' None None None
       ''create-tfrecords'' (Some ''gzip'') 0
     = (Inl (ExternalError ''job failed''),
        [BasicConfig ''/tmp/tfrutil.log'' 20, SetLevel ''tensorflow'' 40,
         BuildPipeline \<lparr>df = example_table, job_label = ''create-tfrecords'',
           runner = ''DirectRunner'', project = None, region = None, output_dir = ''out'',
           compression = Some ''gzip'', num_shards = 0, dataflow_options = None,
           integer_label = False\<rparr>,
         Run]) \<and>
   count_list (snd (create_tfrecords failing_env (DataFrameInput example_table) ''out''
       (Some (HeaderStr ''infer'')) None ''DirectRunner'' None None None
       ''create-tfrecords'' (Some ''gzip'') 0)) LoggingShutdown \<noteq> 1"
proof -
  have t: "to_dataframe failing_env (DataFrameInput example_table) (Some (HeaderStr ''infer'')) None
             = Inr example_table"
    by (simp add: to_dataframe_def)
  have v: "validate_data example_table = Inr ()"
    by (simp add: validate_data_ok_iff example_table_def columns_def IMAGE_CSV_COLUMNS_def)
  have gu: "getitem example_table IMAGE_URI_KEY = Inr (Column (ObjectSeries [''gs://b/1.jpg'']))"
    by (rule getitem_image_uri) (simp add: example_table_def)
  have r: "validate_runner example_table ''DirectRunner'' None None = Inr ()"
    by (simp add: validate_runner_def gu str_startswith_def)
  have gl: "getitem example_table LABEL_KEY = Inr (Column (ObjectSeries [''cat'']))"
    by (rule getitem_label) (simp add: example_table_def)
  have e: "LOGFILE failing_env = ''tfrutil.log''" "LOGLEVEL failing_env = 20"
    by (simp_all add: failing_env_def example_env_def)
  have bp: "build_pipeline failing_env a = Inr (Pipeline (Inl (ExternalError ''job failed'')))"
    for a by (simp add: failing_env_def)
  have p: "os_path_join ''/tmp'' ''tfrutil.log'' = ''/tmp/tfrutil.log''"
    by (simp add: os_path_join_def startswith_def endswith_def)
  show ?thesis
    by (simp add: create_tfrecords_def t v r gl e bp p logging_ERROR_def is_integer_dtype_def)
qed

text \<open>
  C6, as the code has it: logging is configured only after the three validations
  succeeded (a validation failure leaves no effect at all, so nothing is opened or
  closed); \<^verbatim>\<open>logging.shutdown()\<close> is never called more than once, is called only
  after the logging set-up and as the last effect, and is called exactly once whenever
  \<^verbatim>\<open>build_pipeline\<close>, \<^verbatim>\<open>run\<close> and \<^verbatim>\<open>wait_until_finish\<close> all return, whatever
  terminal state is returned; it is called exactly when \<^verbatim>\<open>create_tfrecords\<close> returns
  normally.
\<close>

theorem create_tfrecords_logging_scope:
  "(let t = snd (create_tfrecords E inp out h ns rn pr rg opts lbl cmpr shards) in
     ((\<exists>f l. BasicConfig f l \<in> set t) \<longrightarrow>
        (\<exists>d. to_dataframe E inp h ns = Inr d \<and> validate_data d = Inr () \<and>
             validate_runner d rn pr rg = Inr ())) \<and>
     (\<not> (\<exists>d. to_dataframe E inp h ns = Inr d \<and> validate_data d = Inr () \<and>
             validate_runner d rn pr rg = Inr ()) \<longrightarrow> t = []) \<and>
     count_list t LoggingShutdown \<le> 1 \<and>
     (LoggingShutdown \<in> set t \<longrightarrow> (\<exists>f l. hd t = BasicConfig f l) \<and> last t = LoggingShutdown) \<and>
     (\<forall>a p res st. BuildPipeline a \<in> set t \<and> build_pipeline E a = Inr p \<and>
          run p = Inr res \<and> wait_until_finish res = Inr st
        \<longrightarrow> count_list t LoggingShutdown = 1) \<and>
     (LoggingShutdown \<in> set t) =
       (fst (create_tfrecords E inp out h ns rn pr rg opts lbl cmpr shards) = Inr ()))"
proof (cases "\<exists>d. to_dataframe E inp h ns = Inr d \<and> validate_data d = Inr () \<and>
             validate_runner d rn pr rg = Inr ()")
  case False
  then have "\<exists>e. create_tfrecords E inp out h ns rn pr rg opts lbl cmpr shards = (Inl e, [])"
    by (rule create_tfrecords_unvalidated)
  then show ?thesis using False by (auto simp: Let_def)
next
  case True
  then obtain d where d: "to_dataframe E inp h ns = Inr d" "validate_data d = Inr ()"
     "validate_runner d rn pr rg = Inr ()" by blast
  from create_tfrecords_validated [OF d, of out opts lbl cmpr shards]
  obtain l where c: "create_tfrecords E inp out h ns rn pr rg opts lbl cmpr shards =
             (let a = \<lparr>df = d, job_label = lbl, runner = rn, project = pr, region = rg,
                       output_dir = out, compression = cmpr, num_shards = shards,
                       dataflow_options = opts, integer_label = (dtype_of l = int64)\<rparr>;
                  t1 = [BasicConfig (os_path_join ''/tmp'' (LOGFILE E)) (LOGLEVEL E),
                        SetLevel ''tensorflow'' logging_ERROR, BuildPipeline a]
              in case build_pipeline E a of
                   Inl e \<Rightarrow> (Inl e, t1)
                 | Inr p \<Rightarrow>
                    (case run p of
                       Inl e \<Rightarrow> (Inl e, t1 @ [Run])
                     | Inr res \<Rightarrow>
                        (case wait_until_finish res of
                           Inl e \<Rightarrow> (Inl e, t1 @ [Run, WaitUntilFinish])
                         | Inr st \<Rightarrow> (Inr (), t1 @ [Run, WaitUntilFinish, LoggingShutdown]))))"
    by blast
  show ?thesis
    unfolding c using True
    by (simp add: Let_def split: sum.splits) 
qed

theorem create_tfrecords_logging_scope_witness:
  "create_tfrecords example_env (DataFrameInput example_table) ''out''
       (Some (HeaderStr ''infer'')) None ''DirectRunner'' None None None
       ''create-tfrecords'' (Some ''gzip'') 0
     = (Inr (),
        [BasicConfig ''/tmp/tfrutil.log'' 20, SetLevel ''tensorflow'' 40,
         BuildPipeline \<lparr>df = example_table, job_label = ''create-tfrecords'',
           runner = ''DirectRunner'', project = None, region = None, output_dir = ''out'',
           compression = Some ''gzip'', num_shards = 0, dataflow_options = None,
           integer_label = False\<rparr>,
         Run, WaitUntilFinish, LoggingShutdown]) \<and>
   count_list (snd (create_tfrecords example_env (DataFrameInput example_table) ''out''
       (Some (HeaderStr ''infer'')) None ''DirectRunner'' None None None
       ''create-tfrecords'' (Some ''gzip'') 0)) LoggingShutdown = 1 \<and>
   snd (create_tfrecords example_env (DataFrameInput renamed_table) ''out''
       (Some (HeaderStr ''infer'')) None ''DirectRunner'' None None None
       ''create-tfrecords'' (Some ''gzip'') 0) = []"
proof -
  note c = create_tfrecords_example_env [OF example_table_valid(1,4,3), of "''out''"
      "Some (HeaderStr ''infer'')" None "''create-tfrecords''" "Some ''gzip''" 0]
  have tr: "to_dataframe example_env (DataFrameInput renamed_table) (Some (HeaderStr ''infer'')) None
              = Inr renamed_table"
    by (simp add: to_dataframe_def)
  have vr: "validate_data renamed_table \<noteq> Inr ()"
    by (simp add: validate_data_ok_iff renamed_table_def columns_def IMAGE_CSV_COLUMNS_def
        IMAGE_URI_KEY_def)
  note th = create_tfrecords_logging_scope [where E = example_env
      and h = "Some (HeaderStr ''infer'')" and ns = None and out = "''out''"
      and rn = "''DirectRunner''" and pr = None and rg = None and opts = None
      and lbl = "''create-tfrecords''" and cmpr = "Some ''gzip''" and shards = 0]
  have a: "count_list (snd (create_tfrecords example_env (DataFrameInput example_table) ''out''
       (Some (HeaderStr ''infer'')) None ''DirectRunner'' None None None
       ''create-tfrecords'' (Some ''gzip'') 0)) LoggingShutdown = 1"
    using th [where inp = "DataFrameInput example_table"] by (simp add: c)
  have b: "snd (create_tfrecords example_env (DataFrameInput renamed_table) ''out''
       (Some (HeaderStr ''infer'')) None ''DirectRunner'' None None None
       ''create-tfrecords'' (Some ''gzip'') 0) = []"
    using th [where inp = "DataFrameInput renamed_table"] tr vr by (simp add: Let_def)
  show ?thesis
    using a b c by simp
qed

end
